theory Spec2Isabelle
  imports Main "HOL-Library.Sublist"
begin

section \<open>The tablet manager's agent (go/vt/tabletmanager/agent.go)\<close>

text \<open>
  A shallow embedding of \<^verbatim>\<open>ActionAgent\<close>: the agent's mutex-protected fields, the
  objects it points to, and the collaborators it calls (topology server, MySQL daemon,
  resolver, state-change callback). The mutexes only bracket single reads and writes of
  the fields, so a sequential run of one method is modelled by state passing; tracing
  spans and the context argument carry no state of the agent and are left out.
\<close>

subsection \<open>Data\<close>

text \<open>
  A Go \<^verbatim>\<open>error\<close> is modelled by its message; \<^verbatim>\<open>nil\<close> is \<open>None\<close>.
\<close>

type_synonym error = string

record tablet_alias =
  Cell :: string
  Uid :: nat

text \<open>
  \<^verbatim>\<open>topo.Tablet\<close> is declared outside this file; the fields are the ones agent.go reads
  or writes. \<^verbatim>\<open>Portmap\<close> is a Go map and may be nil (\<open>None\<close>). Functions that touch
  only some fields are defined on the record scheme, whose \<open>more\<close> part stands for
  every field not listed.
\<close>

record tablet =
  Alias :: tablet_alias
  Hostname :: string
  IPAddr :: string
  Portmap :: "(string \<rightharpoonup> int) option"
  Keyspace :: string
  Shard :: string
  Type :: string

text \<open>\<^verbatim>\<open>&topo.Tablet{}\<close>: every field has its zero value.\<close>

definition empty_tablet :: tablet where
  "empty_tablet =
     \<lparr>Alias = \<lparr>Cell = [], Uid = 0\<rparr>, Hostname = [], IPAddr = [], Portmap = None,
      Keyspace = [], Shard = [], Type = []\<rparr>"

text \<open>Reading a Go map: a nil map and a missing key both give the zero value.\<close>

definition map_index :: "(string \<rightharpoonup> int) option \<Rightarrow> string \<Rightarrow> int" where
  "map_index pm k =
     (case pm of None \<Rightarrow> 0 | Some m \<Rightarrow> (case m k of None \<Rightarrow> 0 | Some v \<Rightarrow> v))"

text \<open>The entry of a key in a Go map; a nil map has no entries.\<close>

definition map_entry :: "(string \<rightharpoonup> int) option \<Rightarrow> string \<Rightarrow> int option" where
  "map_entry pm k = (case pm of None \<Rightarrow> None | Some m \<Rightarrow> m k)"

record tablet_control =
  tc_BlacklistedTables :: "string list"
  tc_DisableQueryService :: bool

text \<open>
  Pointers are addresses into a store of tablet objects. A \<^verbatim>\<open>*topo.TabletInfo\<close> and
  the \<^verbatim>\<open>*topo.Tablet\<close> embedded in it are one object here, so both pointers are the
  same address; \<^verbatim>\<open>nil\<close> is \<open>None\<close>.
\<close>

type_synonym addr = nat

text \<open>
  A channel of health replies, as far as a sender sees it: how many sends it can take
  without blocking (\<open>ch_cap\<close>, buffer slots), what it holds, and whether it was closed.
\<close>

record 'r chan =
  ch_cap :: nat
  ch_buf :: "'r list"
  ch_closed :: bool

text \<open>The fields of \<^verbatim>\<open>ActionAgent\<close> that the methods of this file read or write.\<close>

record ActionAgent =
  TabletAlias :: tablet_alias
  priv_tablet :: "addr option"
  priv_tabletControl :: "tablet_control option"
  priv_waitingForMysql :: bool
  priv_healthy :: "error option"
  priv_replicationDelay :: int
  healthStreamIndex :: int
  healthStreamMap :: "(int \<times> addr option) list"

text \<open>
  What a run leaves behind outside the agent: log lines and the calls made to the
  collaborators, in order.
\<close>

datatype arg = ArgString string | ArgInt int | ArgAlias tablet_alias

datatype 'e event =
    LogInfo string "arg list"
  | LogWarning string "arg list"
  | CallGetTablet tablet_alias
  | CallUpdateTabletFields tablet_alias
  | CallValidate tablet_alias
  | CallUpdateTabletEndpoint string string string string 'e
  | CallUpdateTablet tablet
  | CallGetMysqlPort
  | CallFullyQualifiedHostname
  | CallLookupHost string
  | CallChangeCallback tablet tablet

text \<open>
  The state of a run: the agent, the tablet objects, the channels, the trace, and the
  state \<open>ext\<close> of the collaborators (topology store, daemon, services), which only they
  read and change.
\<close>

record ('x, 'e, 'r) state =
  agent :: ActionAgent
  heap :: "addr \<Rightarrow> tablet"
  next_addr :: addr
  chans :: "addr \<Rightarrow> 'r chan"
  trace :: "'e event list"
  ext :: 'x

text \<open>
  The collaborators, none of which is defined in agent.go, are parameters: each takes
  the collaborators' state and returns its result with the new state.
  \<open>tabletHostname\<close> is the value of the \<^verbatim>\<open>-tablet_hostname\<close> flag.
\<close>

record ('x, 'e) env =
  tabletHostname :: string
  topo_GetTablet :: "tablet_alias \<Rightarrow> 'x \<Rightarrow> (error + tablet) \<times> 'x"
  ts_UpdateTabletFields :: "tablet_alias \<Rightarrow> (tablet \<Rightarrow> tablet) \<Rightarrow> 'x \<Rightarrow> error option \<times> 'x"
  topo_Validate :: "tablet_alias \<Rightarrow> 'x \<Rightarrow> error option \<times> 'x"
  ts_UpdateTabletEndpoint ::
    "string \<Rightarrow> string \<Rightarrow> string \<Rightarrow> string \<Rightarrow> 'e \<Rightarrow> 'x \<Rightarrow> error option \<times> 'x"
  topo_UpdateTablet :: "tablet \<Rightarrow> 'x \<Rightarrow> error option \<times> 'x"
  GetMysqlPort :: "'x \<Rightarrow> (error + int) \<times> 'x"
  FullyQualifiedHostname :: "'x \<Rightarrow> (error + string) \<times> 'x"
  LookupHost :: "string \<Rightarrow> 'x \<Rightarrow> (error + string list) \<times> 'x"
  changeCallback :: "tablet \<Rightarrow> tablet \<Rightarrow> 'x \<Rightarrow> error option \<times> 'x"
  IsRunningQueryService :: "tablet \<Rightarrow> bool"
  EndPoint :: "tablet \<Rightarrow> error + 'e"

text \<open>A method either returns its Go results or panics.\<close>

datatype 'a res = Done 'a | Panic string "arg list"

definition nil_dereference :: "'a res" where
  "nil_dereference = Panic ''invalid memory address or nil pointer dereference'' []"

definition log :: "'e event \<Rightarrow> ('x, 'e, 'r) state \<Rightarrow> ('x, 'e, 'r) state" where
  "log ev s = s\<lparr>trace := trace s @ [ev]\<rparr>"

text \<open>A new tablet object; the topology client and \<^verbatim>\<open>&topo.Tablet{}\<close> make one each.\<close>

definition alloc :: "tablet \<Rightarrow> ('x, 'e, 'r) state \<Rightarrow> addr \<times> ('x, 'e, 'r) state" where
  "alloc t s =
     (next_addr s, s\<lparr>heap := (heap s)(next_addr s := t), next_addr := Suc (next_addr s)\<rparr>)"

subsection \<open>Running a method\<close>

type_synonym ('a, 'x, 'e, 'r) go = "('x, 'e, 'r) state \<Rightarrow> 'a res \<times> ('x, 'e, 'r) state"

definition ret :: "'a \<Rightarrow> ('a, 'x, 'e, 'r) go" where
  "ret a s = (Done a, s)"

definition panic :: "string \<Rightarrow> arg list \<Rightarrow> ('a, 'x, 'e, 'r) go" where
  "panic msg args s = (Panic msg args, s)"

text \<open>Sequencing: a panic ends the run; Go's error results are ordinary values.\<close>

definition bnd :: "('a, 'x, 'e, 'r) go \<Rightarrow> ('a \<Rightarrow> ('b, 'x, 'e, 'r) go) \<Rightarrow> ('b, 'x, 'e, 'r) go" where
  "bnd m f s = (case m s of (Done a, s') \<Rightarrow> f a s' | (Panic msg args, s') \<Rightarrow> (Panic msg args, s'))"

definition logM :: "'e event \<Rightarrow> (unit, 'x, 'e, 'r) go" where
  "logM ev s = (Done (), log ev s)"

text \<open>A call to a collaborator: it is recorded in the trace and acts on \<open>ext\<close>.\<close>

definition call :: "'e event \<Rightarrow> ('x \<Rightarrow> 'a \<times> 'x) \<Rightarrow> ('a, 'x, 'e, 'r) go" where
  "call ev f s = (case f (ext s) of (r, x) \<Rightarrow> (Done r, (log ev s)\<lparr>ext := x\<rparr>))"

subsection \<open>Accessors (lines 235--284)\<close>

definition setTablet :: "addr option \<Rightarrow> ActionAgent \<Rightarrow> ActionAgent" where
  "setTablet tablet a = a\<lparr>priv_tablet := tablet\<rparr>"

definition Tablet :: "ActionAgent \<Rightarrow> addr option" where
  "Tablet a = priv_tablet a"

definition Healthy :: "ActionAgent \<Rightarrow> int \<times> error option" where
  "Healthy a = (priv_replicationDelay a, priv_healthy a)"

text \<open>A nil slice is the empty list.\<close>

definition BlacklistedTables :: "ActionAgent \<Rightarrow> string list" where
  "BlacklistedTables a =
     (case priv_tabletControl a of None \<Rightarrow> [] | Some tc \<Rightarrow> tc_BlacklistedTables tc)"

definition DisableQueryService :: "ActionAgent \<Rightarrow> bool" where
  "DisableQueryService a =
     (case priv_tabletControl a of None \<Rightarrow> False | Some tc \<Rightarrow> tc_DisableQueryService tc)"

definition setTabletControl :: "tablet_control option \<Rightarrow> ActionAgent \<Rightarrow> ActionAgent" where
  "setTabletControl tc a = a\<lparr>priv_tabletControl := tc\<rparr>"

subsection \<open>Reading the record and dispatching a state change (lines 216--233)\<close>

text \<open>
  \<^verbatim>\<open>topo.GetTablet\<close> hands back a pointer to a record it has just built, so a successful
  read stores the record in a new object and makes \<^verbatim>\<open>_tablet\<close> point to it; the
  pointer returned is that same pointer.
\<close>

definition readTablet :: "('x, 'e) env \<Rightarrow> (error + addr, 'x, 'e, 'r) go" where
  "readTablet env s =
     bnd (call (CallGetTablet (TabletAlias (agent s))) (topo_GetTablet env (TabletAlias (agent s))))
       (\<lambda>r. case r of
          Inl err \<Rightarrow> ret (Inl err)
        | Inr t \<Rightarrow> (\<lambda>s1. case alloc t s1 of
            (tablet, s2) \<Rightarrow> (Done (Inr tablet), s2\<lparr>agent := setTablet (Some tablet) (agent s2)\<rparr>))) s"

text \<open>
  The callback is a method defined in another file; it is given the two records its
  pointer arguments point to.
\<close>

definition updateState :: "('x, 'e) env \<Rightarrow> addr \<Rightarrow> string \<Rightarrow> (error option, 'x, 'e, 'r) go" where
  "updateState env oldTablet reason s =
     (case priv_tablet (agent s) of
        None \<Rightarrow> (nil_dereference, s)
      | Some newTablet \<Rightarrow>
          bnd (logM (LogInfo ''Running tablet callback because: %v'' [ArgString reason]))
            (\<lambda>_ s1. call (CallChangeCallback (heap s1 oldTablet) (heap s1 newTablet))
                       (changeCallback env (heap s1 oldTablet) (heap s1 newTablet)) s1) s)"

subsection \<open>The MySQL port check (lines 431--450)\<close>

text \<open>
  \<^verbatim>\<open>tablet.Portmap["mysql"] = mport\<close> writes into the object \<open>tablet\<close> points to, and
  panics on a nil map.
\<close>

definition checkTabletMysqlPort :: "('x, 'e) env \<Rightarrow> addr \<Rightarrow> (addr option, 'x, 'e, 'r) go" where
  "checkTabletMysqlPort env tablet =
     bnd (call CallGetMysqlPort (GetMysqlPort env))
       (\<lambda>r. case r of
          Inl err \<Rightarrow>
            bnd (logM (LogWarning ''Cannot get current mysql port, not checking it: %v'' [ArgString err]))
              (\<lambda>_. ret None)
        | Inr mport \<Rightarrow> (\<lambda>s1.
            if mport = map_index (Portmap (heap s1 tablet)) ''mysql'' then (Done None, s1)
            else
              bnd (logM (LogWarning ''MySQL port has changed from %v to %v, updating it in tablet record''
                     [ArgInt (map_index (Portmap (heap s1 tablet)) ''mysql''), ArgInt mport]))
                (\<lambda>_ s2. case Portmap (heap s2 tablet) of
                   None \<Rightarrow> (Panic ''assignment to entry in nil map'' [], s2)
                 | Some m \<Rightarrow>
                     bnd (\<lambda>s3. call (CallUpdateTablet (heap s3 tablet)) (topo_UpdateTablet env (heap s3 tablet)) s3)
                       (\<lambda>w. case w of
                          Some err \<Rightarrow>
                            bnd (logM (LogWarning ''Failed to update tablet record, may use old mysql port'' []))
                              (\<lambda>_. ret None)
                        | None \<Rightarrow> ret (Some tablet))
                       (s2\<lparr>heap := (heap s2)(tablet := (heap s2 tablet)\<lparr>Portmap := Some (m(''mysql'' \<mapsto> mport))\<rparr>)\<rparr>))
                s1))"

subsection \<open>The refresh after an action (lines 288--319)\<close>

definition refreshTablet :: "('x, 'e) env \<Rightarrow> string \<Rightarrow> (error option, 'x, 'e, 'r) go" where
  "refreshTablet env reason =
     bnd (logM (LogInfo ''Executing post-action state refresh'' []))
       (\<lambda>_ s0. case Tablet (agent s0) of
          None \<Rightarrow> (nil_dereference, s0)
        | Some oldTablet \<Rightarrow>
            bnd (readTablet env)
              (\<lambda>r. case r of
                 Inl err \<Rightarrow>
                   bnd (logM (LogWarning ''Failed rereading tablet after %v - services may be inconsistent: %v''
                          [ArgString reason, ArgString err]))
                     (\<lambda>_. ret (Some (''Failed rereading tablet after '' @ reason @ '': '' @ err)))
               | Inr ti \<Rightarrow>
                   bnd (checkTabletMysqlPort env ti)
                     (\<lambda>updatedTablet.
                        bnd (\<lambda>s2. (Done (), case updatedTablet of
                                       None \<Rightarrow> s2
                                     | Some u \<Rightarrow> s2\<lparr>agent := (agent s2)\<lparr>priv_tablet := Some u\<rparr>\<rparr>))
                          (\<lambda>_. bnd (updateState env oldTablet reason)
                             (\<lambda>r. case r of
                                Some err \<Rightarrow> ret (Some err)
                              | None \<Rightarrow>
                                  bnd (logM (LogInfo ''Done with post-action state refresh'' []))
                                    (\<lambda>_. ret None))))) s0)"

subsection \<open>Verification steps of the startup (lines 321--346)\<close>

definition verifyTopology :: "('x, 'e) env \<Rightarrow> (error option, 'x, 'e, 'r) go" where
  "verifyTopology env s =
     (case Tablet (agent s) of
        None \<Rightarrow> (Done (Some ''agent._tablet is nil''), s)
      | Some tablet \<Rightarrow>
          bnd (call (CallValidate (TabletAlias (agent s))) (topo_Validate env (TabletAlias (agent s))))
            (\<lambda>r. case r of
               Some err \<Rightarrow>
                 bnd (logM (LogWarning ''tablet validate failed: %v %v''
                        [ArgAlias (TabletAlias (agent s)), ArgString err]))
                   (\<lambda>_. ret None)
             | None \<Rightarrow> ret None) s)"

text \<open>
  \<^verbatim>\<open>IsRunningQueryService\<close> and \<^verbatim>\<open>EndPoint\<close> are methods of the tablet record,
  declared with it; they read the record only.
\<close>

definition verifyServingAddrs :: "('x, 'e) env \<Rightarrow> (error option, 'x, 'e, 'r) go" where
  "verifyServingAddrs env s =
     (case Tablet (agent s) of
        None \<Rightarrow> (nil_dereference, s)
      | Some p \<Rightarrow>
          if \<not> IsRunningQueryService env (heap s p) then (Done None, s)
          else (case EndPoint env (heap s p) of
                  Inl err \<Rightarrow> (Done (Some err), s)
                | Inr addr \<Rightarrow>
                    call (CallUpdateTabletEndpoint (Cell (Alias (heap s p))) (Keyspace (heap s p))
                            (Shard (heap s p)) (Type (heap s p)) addr)
                      (ts_UpdateTabletEndpoint env (Cell (Alias (heap s p))) (Keyspace (heap s p))
                         (Shard (heap s p)) (Type (heap s p)) addr) s))"

subsection \<open>Startup (lines 350--412)\<close>

text \<open>
  The closure \<^verbatim>\<open>f\<close> of lines 371--389, given to \<^verbatim>\<open>UpdateTabletFields\<close>. It always
  returns nil, so it is the function from the stored record to the record written back.
\<close>

definition Start_f ::
  "string \<Rightarrow> string \<Rightarrow> int \<Rightarrow> int \<Rightarrow> int \<Rightarrow> 'm tablet_scheme \<Rightarrow> 'm tablet_scheme" where
  "Start_f hostname ipAddr mysqlPort vtPort vtsPort tablet =
     (let pm0 = (case Portmap tablet of None \<Rightarrow> Map.empty | Some m \<Rightarrow> m);
          pm1 = (if mysqlPort \<noteq> 0 then pm0(''mysql'' \<mapsto> mysqlPort) else pm0);
          pm2 = pm1(''vt'' \<mapsto> vtPort);
          pm3 = (if vtsPort \<noteq> 0 then pm2(''vts'' \<mapsto> vtsPort) else pm2(''vts'' := None))
      in tablet\<lparr>Hostname := hostname, IPAddr := ipAddr, Portmap := Some pm3\<rparr>)"

text \<open>Lines 357--363: the flag wins over the resolver.\<close>

definition Start_hostname :: "('x, 'e) env \<Rightarrow> (error + string, 'x, 'e, 'r) go" where
  "Start_hostname env =
     (if tabletHostname env = [] then call CallFullyQualifiedHostname (FullyQualifiedHostname env)
      else ret (Inr (tabletHostname env)))"

text \<open>
  Lines 351--397: read the record, find the host name and address, write them and the
  ports into the stored record, read the record again.
\<close>

definition Start_register ::
  "('x, 'e) env \<Rightarrow> int \<Rightarrow> int \<Rightarrow> int \<Rightarrow> (error option, 'x, 'e, 'r) go" where
  "Start_register env mysqlPort vtPort vtsPort =
     bnd (readTablet env)
       (\<lambda>r. case r of
          Inl err \<Rightarrow> ret (Some err)
        | Inr _ \<Rightarrow>
            bnd (Start_hostname env)
              (\<lambda>h. case h of
                 Inl err \<Rightarrow> ret (Some err)
               | Inr hostname \<Rightarrow>
                   bnd (call (CallLookupHost hostname) (LookupHost env hostname))
                     (\<lambda>l. case l of
                        Inl err \<Rightarrow> ret (Some err)
                      | Inr [] \<Rightarrow> panic ''index out of range'' []
                      | Inr (ipAddr # _) \<Rightarrow> (\<lambda>s1.
                          case Tablet (agent s1) of
                            None \<Rightarrow> (nil_dereference, s1)
                          | Some p \<Rightarrow>
                              bnd (call (CallUpdateTabletFields (Alias (heap s1 p)))
                                     (ts_UpdateTabletFields env (Alias (heap s1 p))
                                        (Start_f hostname ipAddr mysqlPort vtPort vtsPort)))
                                (\<lambda>u. case u of
                                   Some err \<Rightarrow> ret (Some err)
                                 | None \<Rightarrow>
                                     bnd (readTablet env)
                                       (\<lambda>r2. case r2 of
                                          Inl err \<Rightarrow> ret (Some err)
                                        | Inr _ \<Rightarrow> ret None)) s1))))"

text \<open>Lines 407--411: the first dispatch, from an empty record.\<close>

definition Start_dispatch :: "('x, 'e) env \<Rightarrow> (error option, 'x, 'e, 'r) go" where
  "Start_dispatch env =
     bnd (\<lambda>s. case alloc empty_tablet s of (oldTablet, s') \<Rightarrow> (Done oldTablet, s'))
       (\<lambda>oldTablet.
          bnd (updateState env oldTablet ''Start'')
            (\<lambda>r. case r of
               Some err \<Rightarrow>
                 bnd (logM (LogWarning
                        ''Initial updateState failed, will need a state change before running properly: %v''
                        [ArgString err]))
                   (\<lambda>_. ret None)
             | None \<Rightarrow> ret None))"

definition Start :: "('x, 'e) env \<Rightarrow> int \<Rightarrow> int \<Rightarrow> int \<Rightarrow> (error option, 'x, 'e, 'r) go" where
  "Start env mysqlPort vtPort vtsPort =
     bnd (Start_register env mysqlPort vtPort vtsPort)
       (\<lambda>r. case r of
          Some err \<Rightarrow> ret (Some err)
        | None \<Rightarrow>
            bnd (verifyTopology env)
              (\<lambda>r. case r of
                 Some err \<Rightarrow> ret (Some err)
               | None \<Rightarrow>
                   bnd (verifyServingAddrs env)
                     (\<lambda>r. case r of
                        Some err \<Rightarrow> ret (Some err)
                      | None \<Rightarrow> Start_dispatch env)))"

subsection \<open>Construction (lines 137--152 and 193--214)\<close>

text \<open>
  The struct literal of both constructors, on the fields modelled: the alias and the
  health sentinel are set, the registry is an empty map, the rest is zero.
\<close>

definition new_agent :: "tablet_alias \<Rightarrow> ActionAgent" where
  "new_agent tabletAlias =
     \<lparr>TabletAlias = tabletAlias, priv_tablet = None, priv_tabletControl = None,
      priv_waitingForMysql = False, priv_healthy = Some ''healthcheck not run yet'',
      priv_replicationDelay = 0, healthStreamIndex = 0, healthStreamMap = []\<rparr>"

text \<open>
  \<^verbatim>\<open>NewTestActionAgent\<close>: the literal, then \<^verbatim>\<open>Start(0, port, 0)\<close>, whose error is a
  panic. The agent returned is the one in the final state.
\<close>

definition NewTestActionAgent ::
  "('x, 'e) env \<Rightarrow> tablet_alias \<Rightarrow> int \<Rightarrow> (unit, 'x, 'e, 'r) go" where
  "NewTestActionAgent env tabletAlias port s =
     bnd (Start env 0 port 0)
       (\<lambda>r. case r of
          Some err \<Rightarrow> panic ''agent.Start(%v) failed: %v'' [ArgAlias tabletAlias, ArgString err]
        | None \<Rightarrow> ret ())
       (s\<lparr>agent := new_agent tabletAlias\<rparr>)"

subsection \<open>The health stream (lines 454--472)\<close>

text \<open>
  \<^verbatim>\<open>select { case c <- hsr: default: }\<close>: the send goes through when the channel can
  take it now, and is skipped otherwise; a nil channel is never ready; a send on a
  closed channel panics.
\<close>

definition send_nonblocking :: "addr option \<Rightarrow> 'r \<Rightarrow> (unit, 'x, 'e, 'r) go" where
  "send_nonblocking c hsr s =
     (case c of
        None \<Rightarrow> (Done (), s)
      | Some a \<Rightarrow>
          if ch_closed (chans s a) then (Panic ''send on closed channel'' [], s)
          else if length (ch_buf (chans s a)) < ch_cap (chans s a)
          then (Done (), s\<lparr>chans := (chans s)(a := (chans s a)\<lparr>ch_buf := ch_buf (chans s a) @ [hsr]\<rparr>)\<rparr>)
          else (Done (), s))"

text \<open>
  The loop over the registry. The list is the registry in the order this run of the
  \<^verbatim>\<open>range\<close> visits it, which Go leaves open.
\<close>

fun broadcast_loop :: "(int \<times> addr option) list \<Rightarrow> 'r \<Rightarrow> (unit, 'x, 'e, 'r) go" where
  "broadcast_loop [] hsr s = (Done (), s)"
| "broadcast_loop ((k, c) # rest) hsr s =
     (case send_nonblocking c hsr s of
        (Done _, s') \<Rightarrow> broadcast_loop rest hsr s'
      | (Panic msg args, s') \<Rightarrow> (Panic msg args, s'))"

definition BroadcastHealthStreamReply :: "'r \<Rightarrow> (unit, 'x, 'e, 'r) go" where
  "BroadcastHealthStreamReply hsr s = broadcast_loop (healthStreamMap (agent s)) hsr s"

definition HealthStreamMapSize :: "ActionAgent \<Rightarrow> nat" where
  "HealthStreamMapSize a = length (healthStreamMap a)"

subsection \<open>Observations on a state\<close>

text \<open>The state-change dispatches in a trace: the pairs of records given to the callback.\<close>

fun dispatches :: "'e event list \<Rightarrow> (tablet \<times> tablet) list" where
  "dispatches [] = []"
| "dispatches (CallChangeCallback old new # evs) = (old, new) # dispatches evs"
| "dispatches (_ # evs) = dispatches evs"

text \<open>The record the agent has cached: the object \<^verbatim>\<open>_tablet\<close> points to.\<close>

definition cached_tablet :: "('x, 'e, 'r) state \<Rightarrow> tablet option" where
  "cached_tablet s = map_option (heap s) (Tablet (agent s))"

definition cached_mysql_port :: "('x, 'e, 'r) state \<Rightarrow> int option" where
  "cached_mysql_port s = map_option (\<lambda>t. map_index (Portmap t) ''mysql'') (cached_tablet s)"

text \<open>A method keeps an observation \<open>q\<close> when no run of it changes \<open>q\<close>.\<close>

definition keeps :: "(('x, 'e, 'r) state \<Rightarrow> 'q) \<Rightarrow> ('a, 'x, 'e, 'r) go \<Rightarrow> bool" where
  "keeps q m = (\<forall>s. q (snd (m s)) = q s)"

subsection \<open>A scenario\<close>

text \<open>
  Tablet \<^verbatim>\<open>cell1-0000000100\<close> with host name override \<^verbatim>\<open>host-a\<close>. The collaborators'
  state is the record the topology store holds for the tablet; every call succeeds, and
  the daemon reports port 3306. Variants make one collaborator fail.
\<close>

definition scn_alias :: tablet_alias where
  "scn_alias = \<lparr>Cell = ''cell1'', Uid = 100\<rparr>"

definition scn_record :: tablet where
  "scn_record =
     \<lparr>Alias = scn_alias, Hostname = ''old-host'', IPAddr = ''10.0.0.9'',
      Portmap = Some [''mysql'' \<mapsto> 3306, ''vt'' \<mapsto> 15000],
      Keyspace = ''test_keyspace'', Shard = ''0'', Type = ''replica''\<rparr>"

definition scn_env :: "(tablet, string) env" where
  "scn_env =
     \<lparr>tabletHostname = ''host-a'',
      topo_GetTablet = (\<lambda>alias x. (Inr x, x)),
      ts_UpdateTabletFields = (\<lambda>alias f x. (None, f x)),
      topo_Validate = (\<lambda>alias x. (None, x)),
      ts_UpdateTabletEndpoint = (\<lambda>cell keyspace shard role ep x. (None, x)),
      topo_UpdateTablet = (\<lambda>t x. (None, t)),
      GetMysqlPort = (\<lambda>x. (Inr 3306, x)),
      FullyQualifiedHostname = (\<lambda>x. (Inr ''host-a.example.com'', x)),
      LookupHost = (\<lambda>h x. (Inr [''10.0.0.1''], x)),
      changeCallback = (\<lambda>old new x. (None, x)),
      IsRunningQueryService = (\<lambda>t. Type t = ''replica''),
      EndPoint = (\<lambda>t. Inr (Hostname t))\<rparr>"

definition scn_env_endpoint_fails :: "(tablet, string) env" where
  "scn_env_endpoint_fails =
     scn_env\<lparr>ts_UpdateTabletEndpoint :=
       (\<lambda>cell keyspace shard role ep x. (Some ''endpoint update failed'', x))\<rparr>"

definition scn_env_callback_fails :: "(tablet, string) env" where
  "scn_env_callback_fails =
     scn_env\<lparr>changeCallback := (\<lambda>old new x. (Some ''callback failed'', x))\<rparr>"

text \<open>Before \<^verbatim>\<open>Start\<close>: the agent as constructed, no objects, nothing logged.\<close>

definition scn_state :: "(tablet, string, string) state" where
  "scn_state =
     \<lparr>agent = new_agent scn_alias, heap = (\<lambda>_. empty_tablet), next_addr = 0,
      chans = (\<lambda>_. \<lparr>ch_cap = 0, ch_buf = [], ch_closed = False\<rparr>), trace = [],
      ext = scn_record\<rparr>"

definition scn_env_read_fails :: "(tablet, string) env" where
  "scn_env_read_fails = scn_env\<lparr>topo_GetTablet := (\<lambda>alias x. (Inl ''node not found'', x))\<rparr>"

definition scn_env_validate_fails :: "(tablet, string) env" where
  "scn_env_validate_fails = scn_env\<lparr>topo_Validate := (\<lambda>alias x. (Some ''validate failed'', x))\<rparr>"

text \<open>The daemon now listens on 3307, and the store refuses the write of the new port.\<close>

definition scn_env_port_write_fails :: "(tablet, string) env" where
  "scn_env_port_write_fails =
     scn_env\<lparr>GetMysqlPort := (\<lambda>x. (Inr 3307, x)),
             topo_UpdateTablet := (\<lambda>t x. (Some ''bad version'', x))\<rparr>"

text \<open>A running agent: the cached record is the stored one, in object 0.\<close>

definition scn_running :: "(tablet, string, string) state" where
  "scn_running =
     scn_state\<lparr>agent := (new_agent scn_alias)\<lparr>priv_tablet := Some 0\<rparr>,
               heap := (\<lambda>_. empty_tablet)(0 := scn_record), next_addr := 1\<rparr>"

text \<open>The same with a record of type idle, which does not run the query service.\<close>

definition scn_idle :: "(tablet, string, string) state" where
  "scn_idle = scn_running\<lparr>heap := (\<lambda>_. empty_tablet)(0 := scn_record\<lparr>Type := ''idle''\<rparr>)\<rparr>"

text \<open>
  Three subscribers: handle 0 with an empty channel of two slots, handle 1 with a full
  channel of one slot, handle 2 with a nil channel.
\<close>

definition scn_streams :: "(tablet, string, string) state" where
  "scn_streams =
     scn_running\<lparr>agent := (agent scn_running)\<lparr>healthStreamIndex := 3,
                    healthStreamMap := [(0, Some 10), (1, Some 11), (2, None)]\<rparr>,
                 chans := (\<lambda>_. \<lparr>ch_cap = 0, ch_buf = [], ch_closed = False\<rparr>)
                   (10 := \<lparr>ch_cap = 2, ch_buf = [], ch_closed = False\<rparr>,
                    11 := \<lparr>ch_cap = 1, ch_buf = [''earlier''], ch_closed = False\<rparr>)\<rparr>"

text \<open>
  Two subscribers, the first of which has closed its channel while still registered;
  the second has an empty channel of one slot.
\<close>

definition scn_streams_closed :: "(tablet, string, string) state" where
  "scn_streams_closed =
     scn_running\<lparr>agent := (agent scn_running)\<lparr>healthStreamIndex := 2,
                    healthStreamMap := [(0, Some 10), (1, Some 11)]\<rparr>,
                 chans := (\<lambda>_. \<lparr>ch_cap = 0, ch_buf = [], ch_closed = False\<rparr>)
                   (10 := \<lparr>ch_cap = 1, ch_buf = [], ch_closed = True\<rparr>,
                    11 := \<lparr>ch_cap = 1, ch_buf = [], ch_closed = False\<rparr>)\<rparr>"

subsection \<open>Observations on the health stream\<close>

text \<open>
  How many handles of a registry hold channel \<open>a\<close>, how many sends a channel can still
  take, and whether no channel of the registry has been closed.
\<close>

definition subscriptions :: "(int \<times> addr option) list \<Rightarrow> addr \<Rightarrow> nat" where
  "subscriptions reg a = count_list (map snd reg) (Some a)"

definition room :: "'r chan \<Rightarrow> nat" where
  "room ch = ch_cap ch - length (ch_buf ch)"

definition none_closed :: "(int \<times> addr option) list \<Rightarrow> (addr \<Rightarrow> 'r chan) \<Rightarrow> bool" where
  "none_closed reg cs =
     list_all (\<lambda>(k, c). case c of None \<Rightarrow> True | Some a \<Rightarrow> \<not> ch_closed (cs a)) reg"

text \<open>
  The channels after one reply went to each handle of a registry as far as there was
  room: channel \<open>a\<close> gains one copy per handle that holds it, up to its room.
\<close>

definition deliver ::
  "(int \<times> addr option) list \<Rightarrow> 'r \<Rightarrow> (addr \<Rightarrow> 'r chan) \<Rightarrow> addr \<Rightarrow> 'r chan" where
  "deliver reg hsr cs a =
     (cs a)\<lparr>ch_buf := ch_buf (cs a) @ replicate (min (subscriptions reg a) (room (cs a))) hsr\<rparr>"

section \<open>Properties\<close>

subsection \<open>Unfolding and evaluation\<close>

lemmas go_defs = ret_def panic_def bnd_def logM_def call_def log_def alloc_def
  readTablet_def updateState_def checkTabletMysqlPort_def refreshTablet_def
  verifyTopology_def verifyServingAddrs_def Start_hostname_def Start_register_def
  Start_dispatch_def Start_def Start_f_def setTablet_def Tablet_def nil_dereference_def

lemmas scn_defs = scn_alias_def scn_record_def scn_env_def scn_state_def new_agent_def
  scn_env_endpoint_fails_def scn_env_callback_fails_def scn_env_read_fails_def
  scn_env_validate_fails_def scn_env_port_write_fails_def scn_running_def scn_idle_def
  scn_streams_def scn_streams_closed_def

lemma dispatches_append: "dispatches (xs @ ys) = dispatches xs @ dispatches ys"
  by (induction xs rule: dispatches.induct) simp_all

subsection \<open>What a method keeps\<close>

lemma keepsI: "(\<And>s. q (snd (m s)) = q s) \<Longrightarrow> keeps q m"
  by (simp add: keeps_def)

lemma keepsD: "keeps q m \<Longrightarrow> q (snd (m s)) = q s"
  by (simp add: keeps_def)

lemma keepsD2: "keeps q m \<Longrightarrow> m s = (r, s') \<Longrightarrow> q s' = q s"
  by (metis keepsD snd_conv)

lemma keeps_ret: "keeps q (ret a)"
  by (simp add: keeps_def ret_def)

lemma keeps_panic: "keeps q (panic msg args)"
  by (simp add: keeps_def panic_def)

lemma keeps_bnd:
  assumes "keeps q m" and "\<And>a. keeps q (f a)"
  shows "keeps q (bnd m f)"
proof (rule keepsI)
  fix s
  obtain r s1 where ms: "m s = (r, s1)" by (cases "m s")
  have q1: "q s1 = q s" using assms(1) ms by (rule keepsD2)
  show "q (snd (bnd m f s)) = q s"
  proof (cases r)
    case (Done a)
    then have "bnd m f s = f a s1" by (simp add: bnd_def ms)
    then show ?thesis using keepsD [OF assms(2), of a s1] q1 by simp
  next
    case (Panic msg args)
    then show ?thesis by (simp add: bnd_def ms q1)
  qed
qed

lemma keeps_case_sum:
  "(\<And>e. keeps q (f e)) \<Longrightarrow> (\<And>a. keeps q (g a)) \<Longrightarrow>
   keeps q (case r of Inl e \<Rightarrow> f e | Inr a \<Rightarrow> g a)"
  by (cases r) simp_all

lemma keeps_case_option:
  "keeps q f \<Longrightarrow> (\<And>a. keeps q (g a)) \<Longrightarrow> keeps q (case r of None \<Rightarrow> f | Some a \<Rightarrow> g a)"
  by (cases r) simp_all

lemma keeps_case_list:
  "keeps q f \<Longrightarrow> (\<And>a as. keeps q (g a as)) \<Longrightarrow>
   keeps q (case r of [] \<Rightarrow> f | a # as \<Rightarrow> g a as)"
  by (cases r) simp_all

lemma keeps_deref:
  "(\<And>p s0. keeps q (m p s0)) \<Longrightarrow>
   keeps q (\<lambda>s. case Tablet (agent s) of None \<Rightarrow> (nil_dereference, s) | Some p \<Rightarrow> m p s s)"
  by (simp add: keeps_def split: option.splits)

lemmas keeps_intros = keeps_bnd keeps_ret keeps_panic keeps_case_sum keeps_case_option
  keeps_case_list keeps_deref

paragraph \<open>The health status is kept by the whole startup.\<close>

lemma health_logM: "keeps (\<lambda>s. Healthy (agent s)) (logM ev)"
  by (simp add: keeps_def logM_def log_def)

lemma health_call: "keeps (\<lambda>s. Healthy (agent s)) (call ev f)"
  by (simp add: keeps_def call_def log_def split: prod.splits)

lemma health_readTablet: "keeps (\<lambda>s. Healthy (agent s)) (readTablet env)"
  by (simp add: keeps_def readTablet_def bnd_def call_def log_def ret_def alloc_def
      setTablet_def Healthy_def split: prod.splits sum.splits res.splits)

lemma health_updateState: "keeps (\<lambda>s. Healthy (agent s)) (updateState env oldTablet reason)"
  by (simp add: keeps_def updateState_def bnd_def call_def log_def logM_def
      Healthy_def split: prod.splits option.splits res.splits)

lemma health_verifyTopology: "keeps (\<lambda>s. Healthy (agent s)) (verifyTopology env)"
  by (simp add: keeps_def verifyTopology_def bnd_def call_def log_def logM_def ret_def
      Healthy_def split: prod.splits option.splits res.splits)

lemma health_verifyServingAddrs: "keeps (\<lambda>s. Healthy (agent s)) (verifyServingAddrs env)"
  by (simp add: keeps_def verifyServingAddrs_def call_def log_def
      Healthy_def split: prod.splits option.splits sum.splits)

lemma health_Start_hostname: "keeps (\<lambda>s. Healthy (agent s)) (Start_hostname env)"
  by (simp add: Start_hostname_def health_call keeps_ret)

lemma health_Start_register:
  "keeps (\<lambda>s. Healthy (agent s)) (Start_register env mysqlPort vtPort vtsPort)"
  unfolding Start_register_def
  by (intro keeps_intros health_readTablet health_Start_hostname health_call)

lemma health_Start_dispatch: "keeps (\<lambda>s. Healthy (agent s)) (Start_dispatch env)"
  unfolding Start_dispatch_def
  apply (intro keeps_intros health_updateState health_logM)
  apply (simp add: keeps_def alloc_def Healthy_def)
  done

lemma health_Start: "keeps (\<lambda>s. Healthy (agent s)) (Start env mysqlPort vtPort vtsPort)"
  unfolding Start_def
  by (intro keeps_intros health_Start_register health_verifyTopology
      health_verifyServingAddrs health_Start_dispatch)

paragraph \<open>Only \<^verbatim>\<open>updateState\<close> dispatches.\<close>

lemma disp_call: "dispatches [ev] = [] \<Longrightarrow> keeps (\<lambda>s. dispatches (trace s)) (call ev f)"
  by (simp add: keeps_def call_def log_def dispatches_append split: prod.splits)

lemma disp_readTablet: "keeps (\<lambda>s. dispatches (trace s)) (readTablet env)"
  by (simp add: keeps_def readTablet_def bnd_def call_def log_def ret_def alloc_def
      setTablet_def dispatches_append split: prod.splits sum.splits res.splits)

lemma disp_verifyTopology: "keeps (\<lambda>s. dispatches (trace s)) (verifyTopology env)"
  by (simp add: keeps_def verifyTopology_def bnd_def call_def log_def logM_def ret_def
      dispatches_append split: prod.splits option.splits res.splits)

lemma disp_verifyServingAddrs: "keeps (\<lambda>s. dispatches (trace s)) (verifyServingAddrs env)"
  by (simp add: keeps_def verifyServingAddrs_def call_def log_def
      dispatches_append split: prod.splits option.splits sum.splits)

lemma disp_Start_hostname: "keeps (\<lambda>s. dispatches (trace s)) (Start_hostname env)"
  by (simp add: Start_hostname_def disp_call keeps_ret)

lemma disp_Start_register:
  "keeps (\<lambda>s. dispatches (trace s)) (Start_register env mysqlPort vtPort vtsPort)"
  unfolding Start_register_def
  by (intro keeps_intros disp_readTablet disp_Start_hostname disp_call) simp_all

paragraph \<open>The verification steps leave the agent and the objects alone.\<close>







paragraph \<open>The broadcast loop.\<close>

lemma deliver_Nil: "deliver [] hsr cs = cs"
  by (simp add: deliver_def subscriptions_def fun_eq_iff)

lemma none_closed_Cons:
  "none_closed ((k, c) # reg) cs =
     ((case c of None \<Rightarrow> True | Some a \<Rightarrow> \<not> ch_closed (cs a)) \<and> none_closed reg cs)"
  by (simp add: none_closed_def)

lemma none_closed_send:
  "none_closed reg cs \<Longrightarrow> none_closed reg (cs(b := (cs b)\<lparr>ch_buf := buf\<rparr>))"
  by (induction reg) (auto simp: none_closed_def split: option.splits)

lemma deliver_skip_nil: "deliver ((k, None) # reg) hsr cs = deliver reg hsr cs"
  by (simp add: deliver_def subscriptions_def fun_eq_iff)

lemma deliver_full:
  "\<not> length (ch_buf (cs b)) < ch_cap (cs b) \<Longrightarrow>
   deliver ((k, Some b) # reg) hsr cs = deliver reg hsr cs"
  by (auto simp: deliver_def subscriptions_def room_def fun_eq_iff)

lemma deliver_send:
  assumes "length (ch_buf (cs b)) < ch_cap (cs b)"
  shows "deliver reg hsr (cs(b := (cs b)\<lparr>ch_buf := ch_buf (cs b) @ [hsr]\<rparr>))
           = deliver ((k, Some b) # reg) hsr cs"
proof (rule ext)
  fix a
  show "deliver reg hsr (cs(b := (cs b)\<lparr>ch_buf := ch_buf (cs b) @ [hsr]\<rparr>)) a
          = deliver ((k, Some b) # reg) hsr cs a"
  proof (cases "a = b")
    case False
    then show ?thesis by (simp add: deliver_def subscriptions_def)
  next
    case True
    have r: "room (cs b) = Suc (room ((cs b)\<lparr>ch_buf := ch_buf (cs b) @ [hsr]\<rparr>))"
      using assms by (simp add: room_def)
    have "[hsr] @ replicate n hsr = replicate (Suc n) hsr" for n by simp
    then show ?thesis
      using True r by (simp add: deliver_def subscriptions_def del: replicate_Suc replicate.simps)
  qed
qed

lemma broadcast_loop_result:
  assumes "none_closed reg (chans s)"
  shows "broadcast_loop reg hsr s = (Done (), s\<lparr>chans := deliver reg hsr (chans s)\<rparr>)"
  using assms
proof (induction reg arbitrary: s)
  case Nil
  then show ?case by (simp add: deliver_Nil)
next
  case (Cons kc reg)
  obtain k c where kc: "kc = (k, c)" by (cases kc)
  show ?case
  proof (cases c)
    case None
    then show ?thesis
      using Cons kc by (simp add: send_nonblocking_def none_closed_Cons deliver_skip_nil)
  next
    case (Some b)
    have op: "\<not> ch_closed (chans s b)" and rest: "none_closed reg (chans s)"
      using Cons.prems kc Some by (simp_all add: none_closed_Cons)
    show ?thesis
    proof (cases "length (ch_buf (chans s b)) < ch_cap (chans s b)")
      case False
      then show ?thesis
        using Cons.IH [OF rest] kc Some op
        by (simp add: send_nonblocking_def deliver_full)
    next
      case True
      let ?s1 = "s\<lparr>chans := (chans s)(b := (chans s b)\<lparr>ch_buf := ch_buf (chans s b) @ [hsr]\<rparr>)\<rparr>"
      have "none_closed reg (chans ?s1)"
        using none_closed_send [OF rest] by simp
      then have "broadcast_loop reg hsr ?s1 = (Done (), ?s1\<lparr>chans := deliver reg hsr (chans ?s1)\<rparr>)"
        by (rule Cons.IH)
      then show ?thesis
        using kc Some op True deliver_send [of "chans s" b reg hsr k]
        by (simp add: send_nonblocking_def)
    qed
  qed
qed

lemma subscribed_positive: "(k, Some a) \<in> set reg \<Longrightarrow> 0 < subscriptions reg a"
  by (induction reg) (auto simp: subscriptions_def)

paragraph \<open>The port check writes into the object it is given.\<close>

lemma checkTabletMysqlPort_writes_object:
  assumes "fst (GetMysqlPort env (ext s)) = Inr mport"
    and "Portmap (heap s ti) = Some m"
    and "mport \<noteq> map_index (Some m) ''mysql''"
  shows "map_index (Portmap (heap (snd (checkTabletMysqlPort env ti s)) ti)) ''mysql'' = mport"
  using assms
  by (auto simp: checkTabletMysqlPort_def bnd_def call_def logM_def log_def ret_def map_index_def
      split: prod.splits option.splits sum.splits)

lemma readTablet_ok:
  assumes "topo_GetTablet env (TabletAlias (agent s)) (ext s) = (Inr t, x1)"
  shows "fst (readTablet env s) = Done (Inr (next_addr s))
         \<and> Tablet (agent (snd (readTablet env s))) = Some (next_addr s)
         \<and> heap (snd (readTablet env s)) (next_addr s) = t
         \<and> ext (snd (readTablet env s)) = x1"
  using assms
  by (simp add: readTablet_def bnd_def call_def log_def ret_def alloc_def setTablet_def Tablet_def)

lemma checkTabletMysqlPort_result:
  "fst (checkTabletMysqlPort env ti s) = Done None \<or> fst (checkTabletMysqlPort env ti s) = Done (Some ti)
   \<or> (\<exists>msg args. fst (checkTabletMysqlPort env ti s) = Panic msg args)"
  by (simp add: checkTabletMysqlPort_def bnd_def call_def logM_def log_def ret_def
      split: prod.splits option.splits sum.splits)

lemma checkTabletMysqlPort_agent:
  "agent (snd (checkTabletMysqlPort env ti s)) = agent s"
  by (simp add: checkTabletMysqlPort_def bnd_def call_def logM_def log_def ret_def
      split: prod.splits option.splits sum.splits)

lemma checkTabletMysqlPort_no_panic:
  assumes "fst (GetMysqlPort env (ext s)) = Inr mport"
    and "Portmap (heap s ti) = Some m"
  shows "fst (checkTabletMysqlPort env ti s) \<noteq> Panic msg args"
  using assms
  by (auto simp: checkTabletMysqlPort_def bnd_def call_def logM_def log_def ret_def
      split: prod.splits option.splits sum.splits)

lemma obj_updateState: "keeps (\<lambda>s. (agent s, heap s)) (updateState env oldTablet reason)"
  by (simp add: keeps_def updateState_def bnd_def call_def log_def logM_def
      split: prod.splits option.splits res.splits)

lemma obj_logM: "keeps (\<lambda>s. (agent s, heap s)) (logM ev)"
  by (simp add: keeps_def logM_def log_def)

text \<open>
  Whatever the store answers to the write-back, a refresh that finds the daemon on
  another port than the record just read leaves the daemon's port in the cached record.
\<close>

lemma refreshTablet_port_drift:
  fixes s :: "('x, 'e, 'r) state"
  assumes "Tablet (agent s) = Some p"
    and "topo_GetTablet env (TabletAlias (agent s)) (ext s) = (Inr t, x1)"
    and "fst (GetMysqlPort env x1) = Inr mport"
    and "Portmap t = Some m"
    and "mport \<noteq> map_index (Some m) ''mysql''"
  shows "cached_mysql_port (snd (refreshTablet env reason s)) = Some mport"
proof -
  define s0 where "s0 = log (LogInfo ''Executing post-action state refresh'' []) s"
  define ti where "ti = next_addr s0"
  define s1 where "s1 = snd (readTablet env s0)"
  define r where "r = fst (checkTabletMysqlPort env ti s1)"
  define s2 where "s2 = snd (checkTabletMysqlPort env ti s1)"
  have "topo_GetTablet env (TabletAlias (agent s0)) (ext s0) = (Inr t, x1)"
    using assms(2) by (simp add: s0_def log_def)
  from readTablet_ok [OF this]
  have rd: "readTablet env s0 = (Done (Inr ti), s1)"
    and s1: "Tablet (agent s1) = Some ti" "heap s1 ti = t" "ext s1 = x1"
    by (simp_all add: ti_def s1_def prod_eq_iff)
  have g: "fst (GetMysqlPort env (ext s1)) = Inr mport" and pm: "Portmap (heap s1 ti) = Some m"
    using assms(3,4) s1 by simp_all
  have port: "map_index (Portmap (heap s2 ti)) ''mysql'' = mport"
    unfolding s2_def using g pm assms(5) by (rule checkTabletMysqlPort_writes_object)
  have ag: "agent s2 = agent s1"
    unfolding s2_def by (rule checkTabletMysqlPort_agent)
  have ck: "checkTabletMysqlPort env ti s1 = (r, s2)"
    by (simp add: r_def s2_def)
  have "r = Done None \<or> r = Done (Some ti)"
    using checkTabletMysqlPort_result [of env ti s1] checkTabletMysqlPort_no_panic [OF g pm]
    unfolding r_def by blast
  then obtain u where u: "r = Done u" "u = None \<or> u = Some ti" by blast
  define s3 where "s3 = (case u of None \<Rightarrow> s2 | Some v \<Rightarrow> s2\<lparr>agent := (agent s2)\<lparr>priv_tablet := Some v\<rparr>\<rparr>)"
  have s3: "Tablet (agent s3) = Some ti" "heap s3 = heap s2"
    using u(2) ag s1(1) by (auto simp: s3_def Tablet_def)
  define tail :: "(error option, 'x, 'e, 'r) go" where "tail = bnd (updateState env p reason)
                 (\<lambda>r. case r of
                    Some err \<Rightarrow> ret (Some err)
                  | None \<Rightarrow> bnd (logM (LogInfo ''Done with post-action state refresh'' [])) (\<lambda>_. ret None))"
  have tail: "keeps (\<lambda>s. (agent s, heap s)) tail"
    unfolding tail_def by (intro keeps_intros obj_updateState obj_logM)
  have p0: "Tablet (agent s0) = Some p"
    using assms(1) by (simp add: s0_def log_def)
  have "refreshTablet env reason s = tail s3"
    unfolding refreshTablet_def
    by (simp add: bnd_def logM_def s0_def [symmetric] p0 rd ck u(1) s3_def [symmetric] tail_def [symmetric])
  moreover have "(agent (snd (tail s3)), heap (snd (tail s3))) = (agent s3, heap s3)"
    using tail by (rule keepsD)
  ultimately show ?thesis
    using s3 port by (simp add: cached_mysql_port_def cached_tablet_def)
qed

section \<open>The claims\<close>

subsection \<open>Startup and the serving-address step\<close>

text \<open>
  Claim C1, as amended. \<^verbatim>\<open>Start\<close> does not swallow a failure of \<^verbatim>\<open>verifyServingAddrs\<close>:
  whenever registration and the topology check have gone through and
  \<^verbatim>\<open>verifyServingAddrs\<close> returns an error, \<^verbatim>\<open>Start\<close> returns that same error in the state
  that step left behind, so nothing runs after it; in particular the state change is not
  dispatched.
\<close>

theorem Start_returns_serving_addrs_error:
  assumes "Start_register env mysqlPort vtPort vtsPort s = (Done None, s1)"
    and "verifyTopology env s1 = (Done None, s2)"
    and "verifyServingAddrs env s2 = (Done (Some err), s3)"
  shows "Start env mysqlPort vtPort vtsPort s = (Done (Some err), s3)
         \<and> dispatches (trace s3) = dispatches (trace s)"
proof -
  have run: "Start env mysqlPort vtPort vtsPort s = (Done (Some err), s3)"
    using assms by (simp add: Start_def bnd_def ret_def)
  have "dispatches (trace s1) = dispatches (trace s)"
    using disp_Start_register assms(1) by (rule keepsD2)
  moreover have "dispatches (trace s2) = dispatches (trace s1)"
    using disp_verifyTopology assms(2) by (rule keepsD2)
  moreover have "dispatches (trace s3) = dispatches (trace s2)"
    using disp_verifyServingAddrs assms(3) by (rule keepsD2)
  ultimately show ?thesis using run by simp
qed

text \<open>The scenario with a serving-address directory that refuses the update.\<close>

theorem Start_returns_serving_addrs_error_witness:
  "fst (Start scn_env_endpoint_fails 3306 15000 0 scn_state) = Done (Some ''endpoint update failed'')
   \<and> dispatches (trace (snd (Start scn_env_endpoint_fails 3306 15000 0 scn_state))) = []"
proof -
  let ?s1 = "snd (Start_register scn_env_endpoint_fails 3306 15000 0 scn_state)"
  let ?s2 = "snd (verifyTopology scn_env_endpoint_fails ?s1)"
  let ?s3 = "snd (verifyServingAddrs scn_env_endpoint_fails ?s2)"
  have h1: "Start_register scn_env_endpoint_fails 3306 15000 0 scn_state = (Done None, ?s1)"
    by (simp add: prod_eq_iff go_defs scn_defs)
  have h2: "verifyTopology scn_env_endpoint_fails ?s1 = (Done None, ?s2)"
    by (simp add: prod_eq_iff go_defs scn_defs)
  have h3: "verifyServingAddrs scn_env_endpoint_fails ?s2 = (Done (Some ''endpoint update failed''), ?s3)"
    by (simp add: prod_eq_iff go_defs scn_defs)
  have "dispatches (trace scn_state) = []" by (simp add: scn_defs)
  then show ?thesis
    using Start_returns_serving_addrs_error [OF h1 h2 h3] by simp
qed

text \<open>
  Claim C1 as stated fails there: the step returns the error, and \<^verbatim>\<open>Start\<close> returns it
  too and dispatches nothing.
\<close>

theorem Start_swallows_serving_addrs_error_counterexample:
  "fst (verifyServingAddrs scn_env_endpoint_fails
          (snd (verifyTopology scn_env_endpoint_fails
             (snd (Start_register scn_env_endpoint_fails 3306 15000 0 scn_state)))))
     = Done (Some ''endpoint update failed'')
   \<and> fst (Start scn_env_endpoint_fails 3306 15000 0 scn_state) = Done (Some ''endpoint update failed'')
   \<and> dispatches (trace (snd (Start scn_env_endpoint_fails 3306 15000 0 scn_state))) = []"
  by (simp add: go_defs scn_defs)

subsection \<open>The refresh after an action\<close>

text \<open>
  Claim C2. When the agent has a cached record and the topology store fails the re-read
  with error \<open>err\<close>, \<^verbatim>\<open>refreshTablet\<close> returns the error
  \<^verbatim>\<open>Failed rereading tablet after <reason>: <err>\<close>, whose message contains the reason,
  and the run dispatches no state change.
\<close>

theorem refreshTablet_read_failure:
  assumes "Tablet (agent s) = Some p"
    and "fst (topo_GetTablet env (TabletAlias (agent s)) (ext s)) = Inl err"
  shows "fst (refreshTablet env reason s)
           = Done (Some (''Failed rereading tablet after '' @ reason @ '': '' @ err))
         \<and> sublist reason (''Failed rereading tablet after '' @ reason @ '': '' @ err)
         \<and> dispatches (trace (snd (refreshTablet env reason s))) = dispatches (trace s)"
proof -
  have run: "fst (refreshTablet env reason s)
               = Done (Some (''Failed rereading tablet after '' @ reason @ '': '' @ err))"
    using assms
    by (auto simp: refreshTablet_def readTablet_def bnd_def call_def logM_def log_def ret_def
        Tablet_def split: prod.splits option.splits)
  have quiet: "dispatches (trace (snd (refreshTablet env reason s))) = dispatches (trace s)"
    using assms
    by (auto simp: refreshTablet_def readTablet_def bnd_def call_def logM_def log_def ret_def
        Tablet_def dispatches_append split: prod.splits option.splits)
  have "sublist reason (''Failed rereading tablet after '' @ reason @ ('': '' @ err))"
    by (rule sublist_appendI)
  then show ?thesis using run quiet by simp
qed

text \<open>Scenario C of the specification: reason \<^verbatim>\<open>finalize-reparent\<close>, record not found.\<close>

theorem refreshTablet_read_failure_witness:
  "fst (refreshTablet scn_env_read_fails ''finalize-reparent'' scn_running)
     = Done (Some ''Failed rereading tablet after finalize-reparent: node not found'')
   \<and> sublist ''finalize-reparent'' ''Failed rereading tablet after finalize-reparent: node not found''
   \<and> dispatches (trace (snd (refreshTablet scn_env_read_fails ''finalize-reparent'' scn_running))) = []"
proof -
  have h1: "Tablet (agent scn_running) = Some 0" by (simp add: Tablet_def scn_defs)
  have h2: "fst (topo_GetTablet scn_env_read_fails (TabletAlias (agent scn_running)) (ext scn_running))
              = Inl ''node not found''"
    by (simp add: scn_defs)
  have "dispatches (trace scn_running) = []" by (simp add: scn_defs)
  then show ?thesis
    using refreshTablet_read_failure [OF h1 h2, of "''finalize-reparent''"] by simp
qed

text \<open>
  Claim C3. The claim holds where the write-back succeeds, and the refresh returns no
  error where it fails; but the cached port does not keep its old value there.
  \<^verbatim>\<open>readTablet\<close> has already stored the pointer \<^verbatim>\<open>ti\<close> in \<^verbatim>\<open>_tablet\<close>, and
  \<^verbatim>\<open>checkTabletMysqlPort\<close> assigns the new port through that pointer before it calls the
  store, so returning nil on the failed write undoes nothing. In the scenario the record
  read has port 3306, the daemon reports 3307 and the store refuses the write: the
  warning is logged, \<^verbatim>\<open>refreshTablet\<close> returns nil, the cached record has port 3307, and
  the store still has 3306.
\<close>

theorem refreshTablet_failed_write_changes_cached_port:
  "cached_mysql_port scn_running = Some 3306
   \<and> fst (GetMysqlPort scn_env_port_write_fails (ext scn_running)) = Inr 3307
   \<and> LogWarning ''Failed to update tablet record, may use old mysql port'' []
       \<in> set (trace (snd (refreshTablet scn_env_port_write_fails ''SetReadOnly'' scn_running)))
   \<and> fst (refreshTablet scn_env_port_write_fails ''SetReadOnly'' scn_running) = Done None
   \<and> cached_mysql_port (snd (refreshTablet scn_env_port_write_fails ''SetReadOnly'' scn_running))
       = Some 3307
   \<and> map_index (Portmap (ext (snd (refreshTablet scn_env_port_write_fails ''SetReadOnly'' scn_running))))
        ''mysql'' = 3306"
  by (simp add: go_defs scn_defs cached_mysql_port_def cached_tablet_def map_index_def)

subsection \<open>Health before the first check\<close>

text \<open>
  Claim C4. The agent as the constructors build it reports, through \<^verbatim>\<open>Healthy\<close>, a zero
  replication delay and the error \<^verbatim>\<open>healthcheck not run yet\<close>, which is not nil; and
  the startup that \<^verbatim>\<open>NewTestActionAgent\<close> runs on it leaves that status as it is, however
  the startup ends.
\<close>

theorem fresh_agent_health_sentinel:
  "Healthy (new_agent tabletAlias) = (0, Some ''healthcheck not run yet'')
   \<and> snd (Healthy (new_agent tabletAlias)) \<noteq> None
   \<and> Healthy (agent (snd (NewTestActionAgent env tabletAlias port s)))
       = (0, Some ''healthcheck not run yet'')"
proof -
  have lit: "Healthy (new_agent tabletAlias) = (0, Some ''healthcheck not run yet'')"
    by (simp add: Healthy_def new_agent_def)
  have "keeps (\<lambda>s. Healthy (agent s))
          (bnd (Start env 0 port 0)
             (\<lambda>r. case r of
                Some err \<Rightarrow> panic ''agent.Start(%v) failed: %v'' [ArgAlias tabletAlias, ArgString err]
              | None \<Rightarrow> ret ()))"
    by (intro keeps_intros health_Start)
  then have "Healthy (agent (snd (NewTestActionAgent env tabletAlias port s)))
               = Healthy (agent (s\<lparr>agent := new_agent tabletAlias\<rparr>))"
    unfolding NewTestActionAgent_def by (rule keepsD)
  then show ?thesis using lit by simp
qed

subsection \<open>The registration mutator\<close>

text \<open>
  Claim C5. The closure given to \<^verbatim>\<open>UpdateTabletFields\<close> sets the host name and the IP
  address; the alias, keyspace, shard, type and every further field of the record stay
  as stored; a port-map entry under a key other than \<^verbatim>\<open>mysql\<close>, \<^verbatim>\<open>vt\<close>, \<^verbatim>\<open>vts\<close> stays as
  stored; and with \<^verbatim>\<open>mysqlPort == 0\<close> the \<^verbatim>\<open>mysql\<close> entry stays as stored. What it
  writes: a known MySQL port under \<^verbatim>\<open>mysql\<close>, the port under \<^verbatim>\<open>vt\<close>, and under \<^verbatim>\<open>vts\<close>
  the secure port, or no entry when that port is 0.
\<close>

theorem Start_f_frame:
  "Hostname (Start_f hostname ipAddr mysqlPort vtPort vtsPort t) = hostname
   \<and> IPAddr (Start_f hostname ipAddr mysqlPort vtPort vtsPort t) = ipAddr
   \<and> Alias (Start_f hostname ipAddr mysqlPort vtPort vtsPort t) = Alias t
   \<and> Keyspace (Start_f hostname ipAddr mysqlPort vtPort vtsPort t) = Keyspace t
   \<and> Shard (Start_f hostname ipAddr mysqlPort vtPort vtsPort t) = Shard t
   \<and> Type (Start_f hostname ipAddr mysqlPort vtPort vtsPort t) = Type t
   \<and> tablet.more (Start_f hostname ipAddr mysqlPort vtPort vtsPort t) = tablet.more t
   \<and> (k \<noteq> ''mysql'' \<and> k \<noteq> ''vt'' \<and> k \<noteq> ''vts'' \<longrightarrow>
        map_entry (Portmap (Start_f hostname ipAddr mysqlPort vtPort vtsPort t)) k
          = map_entry (Portmap t) k)
   \<and> (mysqlPort = 0 \<longrightarrow>
        map_entry (Portmap (Start_f hostname ipAddr mysqlPort vtPort vtsPort t)) ''mysql''
          = map_entry (Portmap t) ''mysql'')
   \<and> (mysqlPort \<noteq> 0 \<longrightarrow>
        map_entry (Portmap (Start_f hostname ipAddr mysqlPort vtPort vtsPort t)) ''mysql''
          = Some mysqlPort)
   \<and> map_entry (Portmap (Start_f hostname ipAddr mysqlPort vtPort vtsPort t)) ''vt'' = Some vtPort
   \<and> map_entry (Portmap (Start_f hostname ipAddr mysqlPort vtPort vtsPort t)) ''vts''
       = (if vtsPort \<noteq> 0 then Some vtsPort else None)"
  by (simp add: Start_f_def map_entry_def Let_def split: option.split)

text \<open>A stored record with a foreign port entry, and an unknown MySQL port.\<close>

theorem Start_f_frame_witness:
  "Keyspace (Start_f ''host-a'' ''10.0.0.1'' 0 15001 0
      (scn_record\<lparr>Portmap := Some [''mysql'' \<mapsto> 3306, ''custom'' \<mapsto> 7]\<rparr>)) = ''test_keyspace''
   \<and> map_entry (Portmap (Start_f ''host-a'' ''10.0.0.1'' 0 15001 0
        (scn_record\<lparr>Portmap := Some [''mysql'' \<mapsto> 3306, ''custom'' \<mapsto> 7]\<rparr>))) ''custom'' = Some 7
   \<and> map_entry (Portmap (Start_f ''host-a'' ''10.0.0.1'' 0 15001 0
        (scn_record\<lparr>Portmap := Some [''mysql'' \<mapsto> 3306, ''custom'' \<mapsto> 7]\<rparr>))) ''mysql'' = Some 3306
   \<and> map_entry (Portmap (Start_f ''host-a'' ''10.0.0.1'' 0 15001 0
        (scn_record\<lparr>Portmap := Some [''mysql'' \<mapsto> 3306, ''custom'' \<mapsto> 7]\<rparr>))) ''vt'' = Some 15001
   \<and> map_entry (Portmap (Start_f ''host-a'' ''10.0.0.1'' 0 15001 0
        (scn_record\<lparr>Portmap := Some [''mysql'' \<mapsto> 3306, ''custom'' \<mapsto> 7]\<rparr>))) ''vts'' = None"
  using Start_f_frame [of "''host-a''" "''10.0.0.1''" 0 15001 0
      "scn_record\<lparr>Portmap := Some [''mysql'' \<mapsto> 3306, ''custom'' \<mapsto> 7]\<rparr>" "''custom''"]
  by (simp add: map_entry_def scn_record_def)

subsection \<open>The verification steps\<close>

text \<open>
  Claim C6. With a cached record, \<^verbatim>\<open>verifyTopology\<close> returns nil whatever the store's
  validation says; when the validation fails with \<open>err\<close>, the run adds to the trace the
  call and one warning that carries the alias and \<open>err\<close>.
\<close>

theorem verifyTopology_tolerates_validate_failure:
  assumes "Tablet (agent s) = Some p"
  shows "fst (verifyTopology env s) = Done None
         \<and> (fst (topo_Validate env (TabletAlias (agent s)) (ext s)) = Some err \<longrightarrow>
              trace (snd (verifyTopology env s))
                = trace s @ [CallValidate (TabletAlias (agent s)),
                             LogWarning ''tablet validate failed: %v %v''
                               [ArgAlias (TabletAlias (agent s)), ArgString err]])"
  using assms
  by (auto simp: verifyTopology_def bnd_def call_def logM_def log_def ret_def
      split: prod.splits option.splits)

theorem verifyTopology_tolerates_validate_failure_witness:
  "fst (verifyTopology scn_env_validate_fails scn_running) = Done None
   \<and> trace (snd (verifyTopology scn_env_validate_fails scn_running))
       = [CallValidate scn_alias,
          LogWarning ''tablet validate failed: %v %v'' [ArgAlias scn_alias, ArgString ''validate failed'']]"
proof -
  have h: "Tablet (agent scn_running) = Some 0"
    by (simp add: Tablet_def scn_defs)
  have v: "fst (topo_Validate scn_env_validate_fails (TabletAlias (agent scn_running)) (ext scn_running))
             = Some ''validate failed''"
    by (simp add: scn_defs)
  have a: "TabletAlias (agent scn_running) = scn_alias" "trace scn_running = []"
    by (simp_all add: scn_defs)
  show ?thesis
    using verifyTopology_tolerates_validate_failure
            [OF h, of scn_env_validate_fails "''validate failed''"] v a
    by simp
qed

text \<open>
  Claim C7. With a cached record that does not run the query service,
  \<^verbatim>\<open>verifyServingAddrs\<close> returns nil and leaves the whole state as it was: no end point
  is computed and no collaborator is called.
\<close>

theorem verifyServingAddrs_skipped_when_not_serving:
  assumes "Tablet (agent s) = Some p" and "\<not> IsRunningQueryService env (heap s p)"
  shows "verifyServingAddrs env s = (Done None, s)"
  using assms by (simp add: verifyServingAddrs_def)

theorem verifyServingAddrs_skipped_when_not_serving_witness:
  "Tablet (agent scn_idle) = Some 0 \<and> \<not> IsRunningQueryService scn_env (heap scn_idle 0)
   \<and> verifyServingAddrs scn_env scn_idle = (Done None, scn_idle)"
proof -
  have h1: "Tablet (agent scn_idle) = Some 0" by (simp add: Tablet_def scn_defs)
  have h2: "\<not> IsRunningQueryService scn_env (heap scn_idle 0)" by (simp add: scn_defs)
  show ?thesis
    using h1 h2 verifyServingAddrs_skipped_when_not_serving [OF h1 h2] by simp
qed

subsection \<open>The health stream\<close>

text \<open>
  Claim C8, as amended. For every registry none of whose channels has been closed,
  \<^verbatim>\<open>BroadcastHealthStreamReply\<close> returns, having tried one send per handle: the state
  changes only in the channels, where each channel holds one more copy of the reply per
  handle registered for it, as far as it had room. So a registered channel with room
  holds the reply next after what it held, and a full channel is as it was. A send in a
  \<^verbatim>\<open>select\<close> with a \<^verbatim>\<open>default\<close> never waits, and the loop is a pass over a finite
  registry, so the run ends whatever the channels hold.
\<close>

theorem BroadcastHealthStreamReply_never_waits:
  assumes "none_closed (healthStreamMap (agent s)) (chans s)"
  shows "BroadcastHealthStreamReply hsr s
           = (Done (), s\<lparr>chans := deliver (healthStreamMap (agent s)) hsr (chans s)\<rparr>)
         \<and> ((k, Some a) \<in> set (healthStreamMap (agent s))
              \<and> length (ch_buf (chans s a)) < ch_cap (chans s a) \<longrightarrow>
              prefix (ch_buf (chans s a) @ [hsr])
                (ch_buf (chans (snd (BroadcastHealthStreamReply hsr s)) a)))
         \<and> (ch_cap (chans s a) \<le> length (ch_buf (chans s a)) \<longrightarrow>
              chans (snd (BroadcastHealthStreamReply hsr s)) a = chans s a)"
proof -
  let ?reg = "healthStreamMap (agent s)"
  have run: "BroadcastHealthStreamReply hsr s = (Done (), s\<lparr>chans := deliver ?reg hsr (chans s)\<rparr>)"
    unfolding BroadcastHealthStreamReply_def using assms by (rule broadcast_loop_result)
  have got: "prefix (ch_buf (chans s a) @ [hsr]) (ch_buf (deliver ?reg hsr (chans s) a))"
    if "(k, Some a) \<in> set ?reg" and "length (ch_buf (chans s a)) < ch_cap (chans s a)"
  proof -
    have "0 < min (subscriptions ?reg a) (room (chans s a))"
      using subscribed_positive [OF that(1)] that(2) by (simp add: room_def)
    then obtain n where "min (subscriptions ?reg a) (room (chans s a)) = Suc n"
      by (cases "min (subscriptions ?reg a) (room (chans s a))") simp_all
    then have "ch_buf (deliver ?reg hsr (chans s) a) = (ch_buf (chans s a) @ [hsr]) @ replicate n hsr"
      by (simp add: deliver_def)
    then show ?thesis by simp
  qed
  have dropped: "deliver ?reg hsr (chans s) a = chans s a"
    if "ch_cap (chans s a) \<le> length (ch_buf (chans s a))"
    using that by (simp add: deliver_def room_def)
  show ?thesis using run got dropped by simp
qed

text \<open>
  Three subscribers: the empty channel receives the reply, the full one keeps what it
  held, the nil one is passed over.
\<close>

theorem BroadcastHealthStreamReply_never_waits_witness:
  "none_closed (healthStreamMap (agent scn_streams)) (chans scn_streams)
   \<and> fst (BroadcastHealthStreamReply ''reply'' scn_streams) = Done ()
   \<and> ch_buf (chans (snd (BroadcastHealthStreamReply ''reply'' scn_streams)) 10) = [''reply'']
   \<and> ch_buf (chans (snd (BroadcastHealthStreamReply ''reply'' scn_streams)) 11) = [''earlier'']"
proof -
  have h: "none_closed (healthStreamMap (agent scn_streams)) (chans scn_streams)"
    by (simp add: none_closed_def scn_defs)
  have full: "ch_cap (chans scn_streams 11) \<le> length (ch_buf (chans scn_streams 11))"
    by (simp add: scn_defs)
  have held: "ch_buf (chans scn_streams 11) = [''earlier'']"
    by (simp add: scn_defs)
  have sent: "ch_buf (deliver (healthStreamMap (agent scn_streams)) ''reply'' (chans scn_streams) 10)
                = [''reply'']"
    by (simp add: deliver_def subscriptions_def room_def scn_defs)
  note inst = BroadcastHealthStreamReply_never_waits [OF h, of "''reply''" 1 11]
  have run: "BroadcastHealthStreamReply ''reply'' scn_streams
               = (Done (), scn_streams\<lparr>chans :=
                    deliver (healthStreamMap (agent scn_streams)) ''reply'' (chans scn_streams)\<rparr>)"
    using inst by (rule conjunct1)
  have kept: "chans (snd (BroadcastHealthStreamReply ''reply'' scn_streams)) 11 = chans scn_streams 11"
    using inst full by blast
  have r1: "fst (BroadcastHealthStreamReply ''reply'' scn_streams) = Done ()"
    by (simp add: run)
  have r2: "ch_buf (chans (snd (BroadcastHealthStreamReply ''reply'' scn_streams)) 10) = [''reply'']"
    by (simp add: run sent)
  have r3: "ch_buf (chans (snd (BroadcastHealthStreamReply ''reply'' scn_streams)) 11) = [''earlier'']"
    by (simp only: kept held)
  show ?thesis using h r1 r2 r3 by blast
qed

text \<open>
  Claim C8 as stated, for every state of the registry, fails where a subscriber has
  closed its channel: the send on it panics, in either order of the loop, and when the
  closed channel comes first the other subscriber, whose channel has room, receives
  nothing.
\<close>

theorem BroadcastHealthStreamReply_closed_channel_counterexample:
  "(1, Some 11) \<in> set (healthStreamMap (agent scn_streams_closed))
   \<and> length (ch_buf (chans scn_streams_closed 11)) < ch_cap (chans scn_streams_closed 11)
   \<and> fst (BroadcastHealthStreamReply ''reply'' scn_streams_closed) = Panic ''send on closed channel'' []
   \<and> ch_buf (chans (snd (BroadcastHealthStreamReply ''reply'' scn_streams_closed)) 11) = []
   \<and> fst (broadcast_loop (rev (healthStreamMap (agent scn_streams_closed))) ''reply'' scn_streams_closed)
       = Panic ''send on closed channel'' []"
  by (simp add: BroadcastHealthStreamReply_def send_nonblocking_def scn_streams_closed_def scn_defs)

subsection \<open>The first dispatch\<close>




subsection \<open>Serving control without an override\<close>

text \<open>
  Claim C10. While no \<^verbatim>\<open>TabletControl\<close> record is set, \<^verbatim>\<open>BlacklistedTables\<close> returns the
  nil list and \<^verbatim>\<open>DisableQueryService\<close> returns false.
\<close>

theorem absent_control_defaults:
  assumes "priv_tabletControl a = None"
  shows "BlacklistedTables a = [] \<and> DisableQueryService a = False"
  using assms by (simp add: BlacklistedTables_def DisableQueryService_def)

theorem absent_control_defaults_witness:
  "priv_tabletControl (new_agent scn_alias) = None
   \<and> BlacklistedTables (new_agent scn_alias) = []
   \<and> DisableQueryService (new_agent scn_alias) = False"
proof -
  have h: "priv_tabletControl (new_agent scn_alias) = None"
    by (simp add: new_agent_def)
  show ?thesis using h absent_control_defaults [OF h] by simp
qed

end
